theory Spec2Isabelle
  imports Main
begin

section \<open>The test funder of pay.ubq.fi\<close>

text \<open>
  The class \<^verbatim>\<open>TestFunder\<close> funds a wallet on a local Anvil node before the tests run.
  It talks to the node through \<^verbatim>\<open>spawnSync("cast", ...)\<close> and \<^verbatim>\<open>fetch\<close>. Both are
  parameters of the model (an environment over a world \<open>'w\<close>), every method is a function
  from the state before the call to its outcome and the state after it, and an
  exception is the outcome \<open>Inl\<close>. The fixed delays (\<^verbatim>\<open>setTimeout\<close>), the console
  output and the spinner (\<^verbatim>\<open>loader\<close>) have no effect on the outcome and are left out.
  The private methods keep their names without the leading underscore.
\<close>

subsection \<open>Exceptions and asynchronous calls\<close>

datatype exn =
    Error string         \<comment> \<open>\<^verbatim>\<open>new Error(message)\<close>\<close>
  | SpawnError string    \<comment> \<open>\<^verbatim>\<open>result.error\<close> of \<^verbatim>\<open>spawnSync\<close>, by its code\<close>
  | RangeError string    \<comment> \<open>\<^verbatim>\<open>BigInt(NaN)\<close>, \<^verbatim>\<open>BigInt(Infinity)\<close>\<close>

type_synonym ('s, 'a) promise = "'s \<Rightarrow> (exn + 'a) \<times> 's"

definition returns :: "'a \<Rightarrow> ('s, 'a) promise" where
  "returns x s = (Inr x, s)"

definition throws :: "exn \<Rightarrow> ('s, 'a) promise" where
  "throws e s = (Inl e, s)"

text \<open>\<^verbatim>\<open>const x = await m; k(x)\<close>: a rejected \<open>m\<close> skips \<open>k\<close>; the state it reached stays.\<close>

definition await :: "('s, 'a) promise \<Rightarrow> ('a \<Rightarrow> ('s, 'b) promise) \<Rightarrow> ('s, 'b) promise" where
  "await m k s = (case m s of (Inl e, s') \<Rightarrow> (Inl e, s') | (Inr x, s') \<Rightarrow> k x s')"

subsection \<open>\<^verbatim>\<open>retry\<close>\<close>

text \<open>
  \<^verbatim>\<open>
  async retry(fn, retries = 5) {
    let i = 0; let isSuccess = false;
    while (i < retries) {
      try { isSuccess = await fn(); } catch (error) { console.error(error); }
      if (isSuccess) return isSuccess;
      i++;
    }
    throw new Error("Failed to execute function");
  }
  \<close>
  \<open>retry_loop\<close> is the \<^verbatim>\<open>while\<close> loop with its two variables; a caught exception
  leaves \<^verbatim>\<open>isSuccess\<close> as it was.
\<close>

function retry_loop ::
  "('s, bool) promise \<Rightarrow> nat \<Rightarrow> nat \<Rightarrow> bool \<Rightarrow> ('s, bool) promise" where
  "retry_loop fn retries i isSuccess s =
     (if i < retries then
        (case fn s of (r, s') \<Rightarrow>
           (let isSuccess' = (case r of Inr b \<Rightarrow> b | Inl e \<Rightarrow> isSuccess) in
            if isSuccess' then (Inr isSuccess', s')
            else retry_loop fn retries (i + 1) isSuccess' s'))
      else (Inl (Error ''Failed to execute function''), s))"
  by pat_completeness auto
termination
  by (relation "measure (\<lambda>(fn, retries, i, isSuccess, s). retries - i)") auto

declare retry_loop.simps [simp del]

definition retry :: "('s, bool) promise \<Rightarrow> nat \<Rightarrow> ('s, bool) promise" where
  "retry fn retries = retry_loop fn retries 0 False"

text \<open>The state after \<open>k\<close> attempts of \<open>fn\<close>, whatever their outcomes.\<close>

definition attempts :: "('s, 'a) promise \<Rightarrow> nat \<Rightarrow> 's \<Rightarrow> 's" where
  "attempts fn k s = ((\<lambda>t. snd (fn t)) ^^ k) s"

subsection \<open>Numbers\<close>

text \<open>
  The JavaScript numbers that occur here are what \<^verbatim>\<open>parseInt\<close> returns and their
  differences: \<^verbatim>\<open>NaN\<close>, the two infinities, and the integers that an IEEE 754 double
  holds exactly. An integer becomes a number by rounding it to 53 significant bits, to
  the nearest with ties to even; from \<open>2^1024\<close> on the result is an infinity.
\<close>

datatype number = NaN | Num int | PosInf | NegInf

function bitLength :: "nat \<Rightarrow> nat" where
  "bitLength n = (if n = 0 then 0 else 1 + bitLength (n div 2))"
  by pat_completeness auto
termination
  by (relation "measure id") auto

declare bitLength.simps [simp del]

definition roundDouble :: "nat \<Rightarrow> nat" where
  "roundDouble n =
     (let e = bitLength n - 53;
          q = n div 2 ^ e;
          r = n mod 2 ^ e
      in if 2 ^ e < 2 * r \<or> (2 * r = 2 ^ e \<and> odd q) then (q + 1) * 2 ^ e else q * 2 ^ e)"

definition toNumber :: "int \<Rightarrow> number" where
  "toNumber i =
     (let m = roundDouble (nat \<bar>i\<bar>) in
      if 2 ^ 1024 \<le> m then (if i < 0 then NegInf else PosInf)
      else Num (if i < 0 then - int m else int m))"

text \<open>\<^verbatim>\<open>a === b\<close>, \<^verbatim>\<open>a > b\<close>, \<^verbatim>\<open>a < b\<close>: false as soon as one side is \<^verbatim>\<open>NaN\<close>.\<close>

definition strictEq :: "number \<Rightarrow> number \<Rightarrow> bool" where
  "strictEq a b =
     (case (a, b) of
        (Num x, Num y) \<Rightarrow> x = y
      | (PosInf, PosInf) \<Rightarrow> True
      | (NegInf, NegInf) \<Rightarrow> True
      | _ \<Rightarrow> False)"

definition lt :: "number \<Rightarrow> number \<Rightarrow> bool" where
  "lt a b =
     (case (a, b) of
        (Num x, Num y) \<Rightarrow> x < y
      | (Num x, PosInf) \<Rightarrow> True
      | (NegInf, Num y) \<Rightarrow> True
      | (NegInf, PosInf) \<Rightarrow> True
      | _ \<Rightarrow> False)"

definition gt :: "number \<Rightarrow> number \<Rightarrow> bool" where
  "gt a b = lt b a"

text \<open>\<^verbatim>\<open>a - b\<close>: the exact difference, rounded; \<^verbatim>\<open>NaN\<close> for equal infinities.\<close>

definition sub :: "number \<Rightarrow> number \<Rightarrow> number" where
  "sub a b =
     (case (a, b) of
        (Num x, Num y) \<Rightarrow> toNumber (x - y)
      | (Num x, PosInf) \<Rightarrow> NegInf
      | (Num x, NegInf) \<Rightarrow> PosInf
      | (PosInf, Num y) \<Rightarrow> PosInf
      | (PosInf, NegInf) \<Rightarrow> PosInf
      | (NegInf, Num y) \<Rightarrow> NegInf
      | (NegInf, PosInf) \<Rightarrow> NegInf
      | _ \<Rightarrow> NaN)"

text \<open>
  \<^verbatim>\<open>parseInt(string)\<close> with no radix, after ECMAScript: leading white space is
  dropped, then a sign, then \<^verbatim>\<open>0x\<close> selects radix 16; the longest prefix of digits is
  the value, and there is none (\<^verbatim>\<open>NaN\<close>) when that prefix is empty. \<open>exactInt\<close> is
  the integer that the digits denote, \<open>parseInt\<close> the number nearest to it (Node rounds
  correctly, also beyond 20 digits). Strings are byte strings here, so white space is the
  ASCII white space.
\<close>

definition isWhiteSpace :: "char \<Rightarrow> bool" where
  "isWhiteSpace c = (c = CHR '' '' \<or> c = CHR 0x09 \<or> c = CHR 0x0A \<or> c = CHR 0x0B
                     \<or> c = CHR 0x0C \<or> c = CHR 0x0D)"

definition digitValue :: "char \<Rightarrow> nat option" where
  "digitValue c =
     (let n = (of_char c :: nat) in
      if 48 \<le> n \<and> n \<le> 57 then Some (n - 48)
      else if 97 \<le> n \<and> n \<le> 122 then Some (n - 87)
      else if 65 \<le> n \<and> n \<le> 90 then Some (n - 55)
      else None)"

definition isDigit :: "nat \<Rightarrow> char \<Rightarrow> bool" where
  "isDigit R c = (case digitValue c of Some d \<Rightarrow> d < R | None \<Rightarrow> False)"

definition mathInt :: "nat \<Rightarrow> string \<Rightarrow> nat" where
  "mathInt R Z = foldl (\<lambda>a c. a * R + (case digitValue c of Some d \<Rightarrow> d | None \<Rightarrow> 0)) 0 Z"

definition exactInt :: "string \<Rightarrow> int option" where
  "exactInt inputString =
     (let S = dropWhile isWhiteSpace inputString;
          sign = (if take 1 S = ''-'' then - 1 else 1);
          S = (if take 1 S = ''-'' \<or> take 1 S = ''+'' then drop 1 S else S);
          hex = (take 2 S = ''0x'' \<or> take 2 S = ''0X'');
          R = (if hex then 16 else 10);
          S = (if hex then drop 2 S else S);
          Z = takeWhile (isDigit R) S
      in if Z = [] then None else Some (sign * int (mathInt R Z)))"

definition parseInt :: "string \<Rightarrow> number" where
  "parseInt inputString =
     (case exactInt inputString of None \<Rightarrow> NaN | Some i \<Rightarrow> toNumber i)"

text \<open>
  \<^verbatim>\<open>BigInt(x)\<close> throws a RangeError on \<^verbatim>\<open>NaN\<close> and on an infinity;
  \<^verbatim>\<open>toString\<close> prints in decimal.
\<close>

definition BigInt :: "number \<Rightarrow> exn + int" where
  "BigInt x =
     (case x of
        Num n \<Rightarrow> Inr n
      | NaN \<Rightarrow> Inl (RangeError
          ''The number NaN cannot be converted to a BigInt because it is not an integer'')
      | PosInf \<Rightarrow> Inl (RangeError
          ''The number Infinity cannot be converted to a BigInt because it is not an integer'')
      | NegInf \<Rightarrow> Inl (RangeError
          ''The number -Infinity cannot be converted to a BigInt because it is not an integer''))"

definition digitChar :: "nat \<Rightarrow> char" where
  "digitChar d = ''0123456789'' ! d"

function digits10 :: "nat \<Rightarrow> string" where
  "digits10 n = (if n < 10 then [digitChar n]
                 else digits10 (n div 10) @ [digitChar (n mod 10)])"
  by pat_completeness auto
termination
  by (relation "measure id") auto

declare digits10.simps [simp del]

definition toString :: "int \<Rightarrow> string" where
  "toString n = (if n < 0 then CHR ''-'' # digits10 (nat (- n)) else digits10 (nat n))"

subsection \<open>The command runner and the node\<close>

record spawn_options =
  encoding :: string
  stdio :: "string option"

record payload =
  command :: string
  args :: "string list"
  options :: spawn_options

record spawn_result =
  error :: "string option"    \<comment> \<open>set when the process could not be launched\<close>
  status :: "int option"      \<comment> \<open>the exit code, \<^verbatim>\<open>null\<close> when a signal ended the process\<close>
  stdout :: string

text \<open>
  What \<^verbatim>\<open>fetch\<close> and \<^verbatim>\<open>resp.json()\<close> give: a rejection (no connection, or a body
  that is not a JSON object), or the \<^verbatim>\<open>result\<close> field of the body as a string,
  \<open>None\<close> when the body has none (\<^verbatim>\<open>parseInt(undefined)\<close> reads the string
  \<^verbatim>\<open>undefined\<close>).
\<close>

datatype fetched = Rejected | Body "string option"

record 'w env =
  spawnSync :: "payload \<Rightarrow> 'w \<Rightarrow> spawn_result \<times> 'w"
  fetch :: "string \<Rightarrow> string \<Rightarrow> 'w \<Rightarrow> fetched \<times> 'w"   \<comment> \<open>URL and JSON-RPC method\<close>

text \<open>
  The state of a run: the world outside the process, and the commands handed to
  \<^verbatim>\<open>spawnSync\<close> so far, in order (what "issues a transfer" and "is never invoked"
  are read from).
\<close>

record 'w state =
  world :: 'w
  calls :: "payload list"

subsection \<open>The class \<^verbatim>\<open>TestFunder\<close>\<close>

record TestFunder =
  anvilRPC :: string
  fundingWallet :: string
  beneficiary :: string
  permit2 :: string
  rewardToken :: string
  whale :: string
  expected_allowance :: string   \<comment> \<open>\<^verbatim>\<open>expected.allowance\<close>\<close>
  expected_balance :: string     \<comment> \<open>\<^verbatim>\<open>expected.balance\<close>\<close>

text \<open>\<^verbatim>\<open>new TestFunder()\<close>; \<^verbatim>\<open>chainIdToRewardTokenMap[100]\<close> is \<^verbatim>\<open>Tokens.WXDAI\<close>.\<close>

definition funder :: TestFunder where
  "funder = \<lparr>
     anvilRPC = ''http://localhost:8545'',
     fundingWallet = ''0x70997970C51812dc3A010C7d01b50e0d17dc79C8'',
     beneficiary = ''0xf39Fd6e51aad88F6F4ce6aB8827279cffFb92266'',
     permit2 = ''0x000000000022D473030F116dDEE9F6B43aC78BA3'',
     rewardToken = ''0xe91d153e0b41518a2ce8dd3d7944fa863463a97d'',
     whale = ''0xefC0e701A824943b469a694aC564Aa1efF7Ab7dd'',
     expected_allowance = ''999999999999999111119999999999999999'',
     expected_balance = ''10000000000000000000000'' \<rparr>"

definition inherit :: spawn_options where
  "inherit = \<lparr>encoding = ''utf8'', stdio = Some ''inherit''\<rparr>"

definition piped :: spawn_options where
  "piped = \<lparr>encoding = ''utf8'', stdio = None\<rparr>"

text \<open>\<^verbatim>\<open>_exec\<close>: run the command, throw \<^verbatim>\<open>result.error\<close> when it is set.\<close>

definition exec :: "'w env \<Rightarrow> payload \<Rightarrow> ('w state, spawn_result) promise" where
  "exec env payload s =
     (case spawnSync env payload (world s) of (result, w') \<Rightarrow>
        (let s' = s\<lparr>world := w', calls := calls s @ [payload]\<rparr> in
         case error result of
           Some e \<Rightarrow> (Inl (SpawnError e), s')
         | None \<Rightarrow> (Inr result, s')))"

definition impersonate_cmd :: "TestFunder \<Rightarrow> string \<Rightarrow> payload" where
  "impersonate_cmd this address = \<lparr>
     command = ''cast'',
     args = [''rpc'', ''--rpc-url'', anvilRPC this, ''anvil_impersonateAccount'', address],
     options = inherit \<rparr>"

definition impersonateAccount :: "'w env \<Rightarrow> TestFunder \<Rightarrow> string \<Rightarrow> ('w state, bool) promise" where
  "impersonateAccount env this address =
     await (exec env (impersonate_cmd this address))
       (\<lambda>impersonate. returns (status impersonate = Some 0))"

definition allowance_cmd :: "TestFunder \<Rightarrow> payload" where
  "allowance_cmd this = \<lparr>
     command = ''cast'',
     args = [''call'', rewardToken this, ''allowance(address,address)(uint256)'',
             fundingWallet this, permit2 this, ''--rpc-url'', anvilRPC this],
     options = piped \<rparr>"

definition fundingAllowanceCheck :: "'w env \<Rightarrow> TestFunder \<Rightarrow> ('w state, string) promise" where
  "fundingAllowanceCheck env this =
     await (exec env (allowance_cmd this)) (\<lambda>allowance. returns (stdout allowance))"

definition balance_cmd :: "TestFunder \<Rightarrow> payload" where
  "balance_cmd this = \<lparr>
     command = ''cast'',
     args = [''call'', rewardToken this, ''balanceOf(address)(uint256)'',
             fundingWallet this, ''--rpc-url'', anvilRPC this],
     options = piped \<rparr>"

definition fundingBalanceCheck :: "'w env \<Rightarrow> TestFunder \<Rightarrow> ('w state, string) promise" where
  "fundingBalanceCheck env this =
     await (exec env (balance_cmd this)) (\<lambda>balance. returns (stdout balance))"

definition approve_cmd :: "TestFunder \<Rightarrow> string \<Rightarrow> payload" where
  "approve_cmd this address = \<lparr>
     command = ''cast'',
     args = [''send'', ''--rpc-url'', anvilRPC this, rewardToken this, ''--unlocked'',
             ''--from'', address, ''approve(address,uint256)(bool)'', permit2 this,
             expected_allowance this],
     options = inherit \<rparr>"

definition approvePayload :: "'w env \<Rightarrow> TestFunder \<Rightarrow> string \<Rightarrow> ('w state, bool) promise" where
  "approvePayload env this address =
     await (exec env (approve_cmd this address)) (\<lambda>approve. returns (status approve = Some 0))"

text \<open>The two \<^verbatim>\<open>transfer(address,uint256)(bool)\<close> commands: sender, recipient, amount.\<close>

definition transfer_cmd :: "TestFunder \<Rightarrow> string \<Rightarrow> string \<Rightarrow> string \<Rightarrow> payload" where
  "transfer_cmd this sender recipient amount = \<lparr>
     command = ''cast'',
     args = [''send'', ''--rpc-url'', anvilRPC this, rewardToken this, ''--unlocked'',
             ''--from'', sender, ''transfer(address,uint256)(bool)'', recipient, amount],
     options = inherit \<rparr>"

text \<open>
  \<^verbatim>\<open>
  private async _clearBalance() {
    const balance = parseInt(await this._fundingBalanceCheck());
    const difference = BigInt(balance - parseInt(this.expected.balance));
    const clear = await this._exec({ ... "--from", this.fundingWallet,
      "transfer(address,uint256)(bool)", this.whale, difference.toString() ... });
    return clear.status === 0;
  }
  \<close>
\<close>

definition clearBalance :: "'w env \<Rightarrow> TestFunder \<Rightarrow> ('w state, bool) promise" where
  "clearBalance env this =
     await (fundingBalanceCheck env this) (\<lambda>out.
       let balance = parseInt out in
       case BigInt (sub balance (parseInt (expected_balance this))) of
         Inl e \<Rightarrow> throws e
       | Inr difference \<Rightarrow>
           await (exec env (transfer_cmd this (fundingWallet this) (whale this)
                              (toString difference)))
             (\<lambda>clear. returns (status clear = Some 0)))"

text \<open>
  \<^verbatim>\<open>
  private async _transferPayload() {
    const balance = parseInt(await this._fundingBalanceCheck());
    const expected = parseInt(this.expected.balance);
    if (balance === expected) {
      return true;
    } else if (balance > expected) {
      await this.retry(() => this._clearBalance());
    }
    const transfer = await this._exec({ ... "--from", this.whale,
      "transfer(address,uint256)(bool)", this.fundingWallet, this.expected.balance ... });
    return transfer.status === 0;
  }
  \<close>
\<close>

definition transferPayload :: "'w env \<Rightarrow> TestFunder \<Rightarrow> ('w state, bool) promise" where
  "transferPayload env this =
     await (fundingBalanceCheck env this) (\<lambda>out.
       let balance = parseInt out;
           expected = parseInt (expected_balance this) in
       if strictEq balance expected then returns True
       else
         await (if gt balance expected
                then await (retry (clearBalance env this) 5) (\<lambda>cleared. returns ())
                else returns ())
           (\<lambda>u. await (exec env (transfer_cmd this (whale this) (fundingWallet this)
                                    (expected_balance this)))
                  (\<lambda>transfer. returns (status transfer = Some 0))))"

text \<open>
  \<^verbatim>\<open>
  async validate() {
    const allowance = await this._fundingAllowanceCheck();
    const balance = await this._fundingBalanceCheck();
    if (parseInt(allowance) < parseInt(this.expected.allowance))
      throw new Error("Allowance is not set correctly");
    if (parseInt(balance) < parseInt(this.expected.balance))
      throw new Error("Balance is not set correctly");
  }
  \<close>
\<close>

definition validate :: "'w env \<Rightarrow> TestFunder \<Rightarrow> ('w state, unit) promise" where
  "validate env this =
     await (fundingAllowanceCheck env this) (\<lambda>allowance.
     await (fundingBalanceCheck env this) (\<lambda>balance.
       if lt (parseInt allowance) (parseInt (expected_allowance this))
       then throws (Error ''Allowance is not set correctly'')
       else if lt (parseInt balance) (parseInt (expected_balance this))
       then throws (Error ''Balance is not set correctly'')
       else returns ()))"

text \<open>
  The \<^verbatim>\<open>for\<close> loop of \<^verbatim>\<open>execute\<close> over the steps, with the flag \<^verbatim>\<open>isMoving\<close>:
  \<^verbatim>\<open>
  for (const [step, fn] of Object.entries(steps)) {
    if (!(await fn())) {
      const isSuccess = await this.retry(fn);
      if (!isSuccess) { isMoving = false; }
    }
  }
  \<close>
\<close>

fun run_steps :: "('s, bool) promise list \<Rightarrow> bool \<Rightarrow> ('s, bool) promise" where
  "run_steps [] isMoving = returns isMoving"
| "run_steps (fn # fns) isMoving =
     await fn (\<lambda>done.
       if \<not> done then
         await (retry fn 5) (\<lambda>isSuccess.
           run_steps fns (if \<not> isSuccess then False else isMoving))
       else run_steps fns isMoving)"

definition steps :: "'w env \<Rightarrow> TestFunder \<Rightarrow> ('w state, bool) promise list" where
  "steps env this =
     [impersonateAccount env this (whale this),
      approvePayload env this (fundingWallet this),
      transferPayload env this]"

text \<open>
  \<^verbatim>\<open>
  let isMoving = true;
  while (isMoving) {
    for ...
    if (isMoving) { break; }
  }
  await this.validate();
  \<close>
  The body of the \<^verbatim>\<open>while\<close> loop runs once: after the \<^verbatim>\<open>for\<close> loop either
  \<^verbatim>\<open>isMoving\<close> holds and the loop is left by \<^verbatim>\<open>break\<close>, or it does not and the
  loop's condition fails.
\<close>

definition execute :: "'w env \<Rightarrow> TestFunder \<Rightarrow> ('w state, unit) promise" where
  "execute env this =
     await (run_steps (steps env this) True) (\<lambda>isMoving.
       if isMoving then validate env this else validate env this)"

text \<open>
  \<^verbatim>\<open>
  async pingAnvil() {
    try {
      const resp = await fetch("http://localhost:8545", { ... eth_blockNumber ... });
      const { result } = await resp.json();
      if (parseInt(result) > 0) { return true; }
    } catch { }
    return false;
  }
  \<close>
\<close>

definition pingAnvil :: "'w env \<Rightarrow> 'w state \<Rightarrow> bool \<times> 'w state" where
  "pingAnvil env s =
     (case fetch env ''http://localhost:8545'' ''eth_blockNumber'' (world s) of (resp, w') \<Rightarrow>
        ((case resp of
            Rejected \<Rightarrow> False
          | Body result \<Rightarrow>
              gt (parseInt (case result of Some r \<Rightarrow> r | None \<Rightarrow> ''undefined'')) (Num 0)),
         s\<lparr>world := w'\<rparr>))"

text \<open>
  \<^verbatim>\<open>
  let isAnvilReady = false; let retries = 5;
  while (!isAnvilReady && retries > 0) {
    isAnvilReady = await funder.pingAnvil();
    retries--;
    if (retries === 0) { throw new Error(`Could not connect to Anvil`); }
  }
  await funder.execute();
  \<close>
\<close>

function wait_loop :: "'w env \<Rightarrow> bool \<Rightarrow> int \<Rightarrow> ('w state, unit) promise" where
  "wait_loop env isAnvilReady retries s =
     (if \<not> isAnvilReady \<and> retries > 0 then
        (case pingAnvil env s of (ready, s') \<Rightarrow>
           if retries - 1 = 0 then (Inl (Error ''Could not connect to Anvil''), s')
           else wait_loop env ready (retries - 1) s')
      else (Inr (), s))"
  by pat_completeness auto
termination
  by (relation "measure (\<lambda>(env, isAnvilReady, retries, s). nat retries)") auto

declare wait_loop.simps [simp del]

definition main :: "'w env \<Rightarrow> ('w state, unit) promise" where
  "main env = await (wait_loop env False 5) (\<lambda>u. execute env funder)"

text \<open>
  \<^verbatim>\<open>main().catch((error) => { process.exit(1); }).finally(() => { process.exit(0); })\<close>
\<close>

definition exit_code :: "exn + unit \<Rightarrow> int" where
  "exit_code r = (case r of Inl e \<Rightarrow> 1 | Inr u \<Rightarrow> 0)"


subsection \<open>A node to run against\<close>

text \<open>
  The node is not part of the repository. For the runs evaluated below it is a ledger
  of the reward token in which every well-formed command succeeds: \<^verbatim>\<open>balanceOf\<close> and
  \<^verbatim>\<open>allowance\<close> print the amount in decimal, \<^verbatim>\<open>approve\<close> sets the allowance, and
  \<^verbatim>\<open>transfer\<close> moves the amount when the sender holds it; the node reads an amount
  exactly (\<open>exactInt\<close>). \<open>boot\<close> is the number of liveness requests that the node leaves
  unanswered while it starts.
\<close>

record node =
  boot :: nat
  balances :: "string \<Rightarrow> nat"
  allowances :: "string \<Rightarrow> string \<Rightarrow> nat"

definition exited :: "int \<Rightarrow> string \<Rightarrow> spawn_result" where
  "exited code out = \<lparr>error = None, status = Some code, stdout = out\<rparr>"

text \<open>The ledger after \<open>a\<close> tokens went from \<open>sender\<close> to \<open>x\<close>.\<close>

definition move :: "string \<Rightarrow> string \<Rightarrow> nat \<Rightarrow> node \<Rightarrow> node" where
  "move sender x a w =
     (let debited = (balances w)(sender := balances w sender - a) in
      w\<lparr>balances := debited(x := debited x + a)\<rparr>)"

definition cast :: "string list \<Rightarrow> node \<Rightarrow> spawn_result \<times> node" where
  "cast argv w =
     (case argv of
        [rpc, f, url, method, address] \<Rightarrow>
          if rpc = ''rpc'' \<and> method = ''anvil_impersonateAccount''
          then (exited 0 [], w) else (exited 1 [], w)
      | [call, token, sig, owner, f, url] \<Rightarrow>
          if call = ''call'' \<and> sig = ''balanceOf(address)(uint256)''
          then (exited 0 (toString (int (balances w owner)) @ [CHR 0x0A]), w)
          else (exited 1 [], w)
      | [call, token, sig, owner, spender, f, url] \<Rightarrow>
          if call = ''call'' \<and> sig = ''allowance(address,address)(uint256)''
          then (exited 0 (toString (int (allowances w owner spender)) @ [CHR 0x0A]), w)
          else (exited 1 [], w)
      | [send, f, url, token, unlocked, fr, sender, sig, x, amount] \<Rightarrow>
          (case exactInt amount of
             None \<Rightarrow> (exited 1 [], w)
           | Some a \<Rightarrow>
               if send = ''send'' \<and> sig = ''approve(address,uint256)(bool)'' \<and> 0 \<le> a
               then (exited 0 [],
                     w\<lparr>allowances := (allowances w)(sender := (allowances w sender)(x := nat a))\<rparr>)
               else if send = ''send'' \<and> sig = ''transfer(address,uint256)(bool)''
                       \<and> 0 \<le> a \<and> nat a \<le> balances w sender
               then (exited 0 [], move sender x (nat a) w)
               else (exited 1 [], w))
      | _ \<Rightarrow> (exited 1 [], w))"

definition anvil :: "node env" where
  "anvil = \<lparr>
     spawnSync = (\<lambda>p w. if command p = ''cast'' then cast (args p) w
                         else (\<lparr>error = Some ''ENOENT'', status = None, stdout = []\<rparr>, w)),
     fetch = (\<lambda>url method w.
                if boot w = 0 then (Body (Some ''0x20b7c5e''), w)
                else (Rejected, w\<lparr>boot := boot w - 1\<rparr>)) \<rparr>"

text \<open>The same node for a process that cannot launch \<^verbatim>\<open>cast\<close> (the binary is missing).\<close>

definition no_cast :: "node env" where
  "no_cast = anvil\<lparr>spawnSync :=
     (\<lambda>p w. (\<lparr>error = Some ''ENOENT'', status = None, stdout = []\<rparr>, w))\<rparr>"

text \<open>The same node with a token whose \<^verbatim>\<open>approve\<close> always reverts (exit status 1).\<close>

definition approve_reverts :: "node env" where
  "approve_reverts = anvil\<lparr>spawnSync :=
     (\<lambda>p w. if ''approve(address,uint256)(bool)'' \<in> set (args p) then (exited 1 [], w)
             else spawnSync anvil p w)\<rparr>"


text \<open>
  A state to start from: the node answers after \<open>n\<close> unanswered liveness requests, the
  funding wallet holds \<open>b\<close>, the whale \<open>10^24\<close>, the allowance of the funding wallet to
  Permit2 is \<open>a\<close>, and no command has been run.
\<close>

definition start :: "nat \<Rightarrow> nat \<Rightarrow> nat \<Rightarrow> node state" where
  "start n a b = \<lparr>
     world = \<lparr>
       boot = n,
       balances = (\<lambda>owner. if owner = fundingWallet funder then b
                           else if owner = whale funder then 1000000000000000000000000
                           else 0),
       allowances = (\<lambda>owner spender.
                       if owner = fundingWallet funder \<and> spender = permit2 funder then a else 0) \<rparr>,
     calls = [] \<rparr>"

text \<open>The balance of the funding wallet in a state of that node.\<close>

definition wallet_balance :: "node state \<Rightarrow> nat" where
  "wallet_balance s = balances (world s) (fundingWallet funder)"

text \<open>The state after \<open>k\<close> liveness probes.\<close>

definition probes :: "'w env \<Rightarrow> nat \<Rightarrow> 'w state \<Rightarrow> 'w state" where
  "probes env k s = ((\<lambda>t. snd (pingAnvil env t)) ^^ k) s"

text \<open>The \<^verbatim>\<open>cast send\<close> commands among the commands run.\<close>

definition sends :: "'w state \<Rightarrow> payload list" where
  "sends s = filter (\<lambda>p. take 1 (args p) = [''send'']) (calls s)"


subsection \<open>Steps to test \<^verbatim>\<open>retry\<close> with\<close>

text \<open>A step wrapped in a spy that counts how many times it is invoked.\<close>

definition counted :: "('s, 'a) promise \<Rightarrow> (nat \<times> 's, 'a) promise" where
  "counted fn = (\<lambda>(c, s). case fn s of (r, s') \<Rightarrow> (r, (Suc c, s')))"

text \<open>
  A step over a countdown: it succeeds at \<open>0\<close>; before that it throws on an even
  count and returns \<^verbatim>\<open>false\<close> on an odd one.
\<close>

definition flaky :: "(nat, bool) promise" where
  "flaky n = (if n = 0 then (Inr True, 0)
              else if even n then (Inl (SpawnError ''EAGAIN''), n - 1)
              else (Inr False, n - 1))"


section \<open>Properties\<close>

text \<open>The equations that evaluate a parse or a print at a given string or number.\<close>

lemmas exact_defs = exactInt_def isWhiteSpace_def isDigit_def digitValue_def mathInt_def
lemmas parse_defs = parseInt_def exact_defs toNumber_def roundDouble_def bitLength.simps
lemmas print_defs = toString_def digits10.simps digitChar_def


lemma gt_not_strictEq: "gt x y \<Longrightarrow> \<not> strictEq x y"
  by (cases x; cases y) (auto simp: gt_def lt_def strictEq_def)

subsection \<open>The retry loop\<close>

lemma attempts_0: "attempts fn 0 s = s"
  by (simp add: attempts_def)

lemma attempts_Suc: "attempts fn (Suc k) s = attempts fn k (snd (fn s))"
  using funpow_swap1 [of "\<lambda>t. snd (fn t)" k s] by (simp add: attempts_def)

lemma retry_loop_failed_step:
  assumes "i < n" and "fst (fn s) \<noteq> Inr True"
  shows "retry_loop fn n i False s = retry_loop fn n (Suc i) False (snd (fn s))"
proof (cases "fn s")
  case (Pair r s')
  with assms(2) have "(case r of Inr b \<Rightarrow> b | Inl e \<Rightarrow> False) = False"
    by (cases r) auto
  with Pair assms(1) show ?thesis
    by (subst retry_loop.simps) simp
qed

lemma retry_loop_success_step:
  assumes "i < n" and "fst (fn s) = Inr True"
  shows "retry_loop fn n i False s = (Inr True, snd (fn s))"
  using assms by (subst retry_loop.simps) (cases "fn s", simp)

lemma retry_loop_exhausted:
  "\<forall>j < m. fst (fn (attempts fn j s)) \<noteq> Inr True \<Longrightarrow>
   retry_loop fn (i + m) i False s = (Inl (Error ''Failed to execute function''), attempts fn m s)"
proof (induction m arbitrary: i s)
  case 0
  show ?case by (subst retry_loop.simps) (simp add: attempts_0)
next
  case (Suc m)
  from Suc.prems have first: "fst (fn s) \<noteq> Inr True"
    by (metis attempts_0 zero_less_Suc)
  from Suc.prems have rest: "\<forall>j < m. fst (fn (attempts fn j (snd (fn s)))) \<noteq> Inr True"
    by (metis attempts_Suc Suc_less_eq)
  have "retry_loop fn (i + Suc m) i False s = retry_loop fn (Suc i + m) (Suc i) False (snd (fn s))"
    using retry_loop_failed_step [of i "i + Suc m" fn s] first by simp
  also have "\<dots> = (Inl (Error ''Failed to execute function''), attempts fn m (snd (fn s)))"
    by (rule Suc.IH [OF rest])
  finally show ?case by (simp add: attempts_Suc)
qed

lemma retry_loop_first_success:
  "\<forall>j < k. fst (fn (attempts fn j s)) \<noteq> Inr True \<Longrightarrow>
   fst (fn (attempts fn k s)) = Inr True \<Longrightarrow> i + k < n \<Longrightarrow>
   retry_loop fn n i False s = (Inr True, attempts fn (Suc k) s)"
proof (induction k arbitrary: i s)
  case 0
  then show ?case
    using retry_loop_success_step [of i n fn s] by (simp add: attempts_0 attempts_Suc)
next
  case (Suc k)
  from Suc.prems(1) have first: "fst (fn s) \<noteq> Inr True"
    by (metis attempts_0 zero_less_Suc)
  from Suc.prems(1) have rest: "\<forall>j < k. fst (fn (attempts fn j (snd (fn s)))) \<noteq> Inr True"
    by (metis attempts_Suc Suc_less_eq)
  from Suc.prems(2) have hit: "fst (fn (attempts fn k (snd (fn s)))) = Inr True"
    by (simp add: attempts_Suc)
  have "retry_loop fn n i False s = retry_loop fn n (Suc i) False (snd (fn s))"
    using retry_loop_failed_step [of i n fn s] first Suc.prems(3) by simp
  also have "\<dots> = (Inr True, attempts fn (Suc k) (snd (fn s)))"
    using Suc.IH [OF rest hit, of "Suc i"] Suc.prems(3) by simp
  finally show ?case by (simp add: attempts_Suc)
qed

lemma retry_loop_result:
  "retry_loop fn n i False s = (r, s') \<Longrightarrow>
   r = Inr True \<or> r = Inl (Error ''Failed to execute function'')"
proof (induction "n - i" arbitrary: i s)
  case 0
  from 0 have "\<not> i < n" by simp
  with "0.prems" show ?case by (subst (asm) retry_loop.simps) simp
next
  case (Suc m)
  then have lt: "i < n" by simp
  show ?case
  proof (cases "fst (fn s) = Inr True")
    case True
    with Suc.prems lt show ?thesis
      by (simp add: retry_loop_success_step)
  next
    case False
    with Suc.prems lt have "retry_loop fn n (Suc i) False (snd (fn s)) = (r, s')"
      by (simp add: retry_loop_failed_step)
    moreover from Suc.hyps(2) have "m = n - Suc i" by simp
    ultimately show ?thesis by (rule Suc.hyps(1) [rotated])
  qed
qed

lemma retry_exhausted:
  "\<forall>j < n. fst (fn (attempts fn j s)) \<noteq> Inr True \<Longrightarrow>
   retry fn n s = (Inl (Error ''Failed to execute function''), attempts fn n s)"
  using retry_loop_exhausted [of n fn s 0] by (simp add: retry_def)

lemma retry_first_success:
  "\<forall>j < k. fst (fn (attempts fn j s)) \<noteq> Inr True \<Longrightarrow>
   fst (fn (attempts fn k s)) = Inr True \<Longrightarrow> k < n \<Longrightarrow>
   retry fn n s = (Inr True, attempts fn (Suc k) s)"
  using retry_loop_first_success [of k fn s 0 n] by (simp add: retry_def)

lemma retry_result:
  "retry fn n s = (r, s') \<Longrightarrow> r = Inr True \<or> r = Inl (Error ''Failed to execute function'')"
  unfolding retry_def by (rule retry_loop_result)

lemma fst_counted: "fst (counted fn (c, s)) = fst (fn s)"
  by (simp add: counted_def split: prod.split)

lemma snd_counted: "snd (counted fn (c, s)) = (Suc c, snd (fn s))"
  by (simp add: counted_def split: prod.split)

lemma attempts_counted: "attempts (counted fn) k (c, s) = (c + k, attempts fn k s)"
  by (induction k arbitrary: c s) (simp_all add: attempts_0 attempts_Suc snd_counted)

lemma attempts_flaky: "attempts flaky k n = n - k"
  by (induction k arbitrary: n) (simp_all add: attempts_0 attempts_Suc flaky_def)

lemma run_steps_flag:
  "run_steps fns isMoving s = (Inr m, s') \<Longrightarrow> m = isMoving"
proof (induction fns arbitrary: isMoving s)
  case Nil
  then show ?case by (simp add: returns_def)
next
  case (Cons fn fns)
  show ?case
  proof (cases "fn s")
    case (Pair r s1)
    show ?thesis
    proof (cases r)
      case (Inl e)
      with Pair Cons.prems show ?thesis by (simp add: await_def)
    next
      case (Inr ok)
      show ?thesis
      proof (cases ok)
        case True
        with Pair Inr Cons.prems have "run_steps fns isMoving s1 = (Inr m, s')"
          by (simp add: await_def)
        then show ?thesis by (rule Cons.IH)
      next
        case False
        obtain r2 s2 where again: "retry fn 5 s1 = (r2, s2)" by (cases "retry fn 5 s1")
        from retry_result [OF again] show ?thesis
        proof
          assume "r2 = Inr True"
          with Pair Inr False again Cons.prems have "run_steps fns isMoving s2 = (Inr m, s')"
            by (simp add: await_def)
          then show ?thesis by (rule Cons.IH)
        next
          assume "r2 = Inl (Error ''Failed to execute function'')"
          with Pair Inr False again Cons.prems show ?thesis by (simp add: await_def)
        qed
      qed
    qed
  qed
qed

lemma retry_flaky: "n < m \<Longrightarrow> retry flaky m n = (Inr True, 0)"
proof -
  assume "n < m"
  moreover have "\<forall>j < n. fst (flaky (attempts flaky j n)) \<noteq> Inr True"
    by (simp add: attempts_flaky flaky_def)
  moreover have "fst (flaky (attempts flaky n n)) = Inr True"
    by (simp add: attempts_flaky flaky_def)
  ultimately show ?thesis
    using retry_first_success [of n flaky n m] by (simp add: attempts_flaky)
qed

text \<open>
  C4 (retry budget). For every step and every budget \<open>maxRetries\<close>, with the step
  wrapped in a spy that counts its invocations: when the attempts before the \<open>k\<close>-th
  fail or throw and the \<open>k\<close>-th succeeds within the budget, \<open>retry\<close> returns
  \<^verbatim>\<open>true\<close> after exactly \<open>k + 1\<close> invocations, no exception of the step having
  left it; when every attempt within the budget fails or throws, \<open>retry\<close> invokes the
  step exactly \<open>maxRetries\<close> times and then throws its own error.
\<close>

theorem retry_budget:
  "(k < maxRetries \<and> (\<forall>j < k. fst (step (attempts step j s)) \<noteq> Inr True)
      \<and> fst (step (attempts step k s)) = Inr True
    \<longrightarrow> retry (counted step) maxRetries (0, s) = (Inr True, (Suc k, attempts step (Suc k) s)))
   \<and> ((\<forall>j < maxRetries. fst (step (attempts step j s)) \<noteq> Inr True)
    \<longrightarrow> retry (counted step) maxRetries (0, s)
        = (Inl (Error ''Failed to execute function''), (maxRetries, attempts step maxRetries s)))"
proof (intro conjI impI)
  assume a: "k < maxRetries \<and> (\<forall>j < k. fst (step (attempts step j s)) \<noteq> Inr True)
      \<and> fst (step (attempts step k s)) = Inr True"
  then have "\<forall>j < k. fst (counted step (attempts (counted step) j (0, s))) \<noteq> Inr True"
    and "fst (counted step (attempts (counted step) k (0, s))) = Inr True"
    by (simp_all add: attempts_counted fst_counted)
  then have "retry (counted step) maxRetries (0, s) = (Inr True, attempts (counted step) (Suc k) (0, s))"
    using a by (intro retry_first_success) simp_all
  then show "retry (counted step) maxRetries (0, s) = (Inr True, (Suc k, attempts step (Suc k) s))"
    by (simp add: attempts_counted)
next
  assume "\<forall>j < maxRetries. fst (step (attempts step j s)) \<noteq> Inr True"
  then have "\<forall>j < maxRetries. fst (counted step (attempts (counted step) j (0, s))) \<noteq> Inr True"
    by (simp add: attempts_counted fst_counted)
  then have "retry (counted step) maxRetries (0, s)
      = (Inl (Error ''Failed to execute function''), attempts (counted step) maxRetries (0, s))"
    by (rule retry_exhausted)
  then show "retry (counted step) maxRetries (0, s)
      = (Inl (Error ''Failed to execute function''), (maxRetries, attempts step maxRetries s))"
    by (simp add: attempts_counted)
qed

text \<open>
  C4, at two inputs: the countdown step started at 2 succeeds at its third attempt; started
  at 7 it fails or throws five times, and \<open>retry\<close> gives up after exactly five attempts.
\<close>

theorem retry_budget_witness:
  "retry (counted flaky) 5 (0, 2) = (Inr True, (3, 0))
   \<and> retry (counted flaky) 5 (0, 7) = (Inl (Error ''Failed to execute function''), (5, 2))"
proof
  have "\<forall>j < 2. fst (flaky (attempts flaky j 2)) \<noteq> Inr True"
    by (simp add: attempts_flaky flaky_def)
  moreover have "fst (flaky (attempts flaky 2 2)) = Inr True"
    by (simp add: attempts_flaky flaky_def)
  ultimately show "retry (counted flaky) 5 (0, 2) = (Inr True, (3, 0))"
    using retry_budget [of 2 5 flaky 2] by (simp add: attempts_flaky)
next
  have "\<forall>j < 5. fst (flaky (attempts flaky j 7)) \<noteq> Inr True"
    by (simp add: attempts_flaky flaky_def)
  then show "retry (counted flaky) 5 (0, 7) = (Inl (Error ''Failed to execute function''), (5, 2))"
    using retry_budget [of 0 5 flaky 7] by (simp add: attempts_flaky)
qed

text \<open>
  C10 (retry never returns false). Whatever the step and the budget, \<open>retry\<close> does not
  return \<^verbatim>\<open>false\<close>: it returns \<^verbatim>\<open>true\<close> or throws. So the branch of
  \<^verbatim>\<open>execute\<close> that clears \<^verbatim>\<open>isMoving\<close> is never taken: when the loop over the
  steps ends without an exception, \<^verbatim>\<open>isMoving\<close> still holds.
\<close>

theorem retry_never_false:
  "(retry fn retries s = (r, s')
      \<longrightarrow> r \<noteq> Inr False \<and> (r = Inr True \<or> r = Inl (Error ''Failed to execute function'')))
   \<and> (run_steps fns True s = (Inr isMoving, s'') \<longrightarrow> isMoving)"
proof (intro conjI impI)
  assume "retry fn retries s = (r, s')"
  from retry_result [OF this]
  show "r \<noteq> Inr False" and "r = Inr True \<or> r = Inl (Error ''Failed to execute function'')"
    by auto
next
  assume "run_steps fns True s = (Inr isMoving, s'')"
  from run_steps_flag [OF this] show isMoving by simp
qed

text \<open>
  C10, at an input: the countdown step started at 3 fails three times and then succeeds,
  under \<open>retry\<close> and as the first of two steps.
\<close>

theorem retry_never_false_witness:
  "retry flaky 5 3 = (Inr True, 0) \<and> Inr True \<noteq> (Inr False :: exn + bool)
   \<and> run_steps [flaky, flaky] True 3 = (Inr True, 0) \<and> True"
proof -
  have run: "run_steps [flaky, flaky] True 3 = (Inr True, 0)"
    by (simp add: await_def returns_def flaky_def retry_flaky)
  have again: "retry flaky 5 3 = (Inr True, 0)"
    by (simp add: retry_flaky)
  show ?thesis
    using retry_never_false [of flaky 5 3 "Inr True" 0 "[flaky, flaky]" True 0] again run
    by (simp del: run_steps.simps)
qed

subsection \<open>Waiting for the node\<close>

text \<open>
  The loop of \<^verbatim>\<open>main\<close> on any node: a probe that succeeds before the last one of
  the budget ends the wait; with the last probe of the budget the loop throws, whatever
  that probe returned.
\<close>

lemma wait_loop_probe:
  "0 < retries \<Longrightarrow>
   wait_loop env False retries s =
     (case pingAnvil env s of (ready, s') \<Rightarrow>
        if retries - 1 = 0 then (Inl (Error ''Could not connect to Anvil''), s')
        else wait_loop env ready (retries - 1) s')"
  by (subst wait_loop.simps) simp

lemma wait_loop_ready: "wait_loop env True retries s = (Inr (), s)"
  by (subst wait_loop.simps) simp

lemma probes_0: "probes env 0 s = s"
  by (simp add: probes_def)

lemma probes_Suc: "probes env (Suc k) s = probes env k (snd (pingAnvil env s))"
  using funpow_swap1 [of "\<lambda>t. snd (pingAnvil env t)" k s] by (simp add: probes_def)

lemma wait_loop_failed_probe:
  "\<not> fst (pingAnvil env s) \<Longrightarrow> 1 < retries \<Longrightarrow>
   wait_loop env False retries s = wait_loop env False (retries - 1) (snd (pingAnvil env s))"
  by (cases "pingAnvil env s") (simp add: wait_loop_probe)

lemma wait_loop_good_probe:
  "fst (pingAnvil env s) \<Longrightarrow> 1 < retries \<Longrightarrow>
   wait_loop env False retries s = (Inr (), snd (pingAnvil env s))"
  by (cases "pingAnvil env s") (simp add: wait_loop_probe wait_loop_ready)

lemma wait_loop_last_probe:
  "wait_loop env False 1 s = (Inl (Error ''Could not connect to Anvil''), snd (pingAnvil env s))"
  by (cases "pingAnvil env s") (simp add: wait_loop_probe)

lemma wait_loop_ready_early:
  assumes "\<forall>j < k. \<not> fst (pingAnvil env (probes env j s))"
    and "fst (pingAnvil env (probes env k s))" and "int k + 1 < retries"
  shows "wait_loop env False retries s = (Inr (), probes env (Suc k) s)"
  using assms
proof (induction k arbitrary: s retries)
  case 0
  then show ?case
    by (simp add: probes_0 probes_Suc wait_loop_good_probe)
next
  case (Suc k)
  from Suc.prems(1) have first: "\<not> fst (pingAnvil env s)"
    by (metis probes_0 zero_less_Suc)
  from Suc.prems(1) have rest: "\<forall>j < k. \<not> fst (pingAnvil env (probes env j (snd (pingAnvil env s))))"
    by (metis probes_Suc Suc_less_eq)
  from Suc.prems(2) have hit: "fst (pingAnvil env (probes env k (snd (pingAnvil env s))))"
    by (simp add: probes_Suc)
  have "wait_loop env False retries s = wait_loop env False (retries - 1) (snd (pingAnvil env s))"
    using first Suc.prems(3) by (intro wait_loop_failed_probe) simp_all
  also have "\<dots> = (Inr (), probes env (Suc k) (snd (pingAnvil env s)))"
    using Suc.prems(3) by (intro Suc.IH [OF rest hit]) simp
  finally show ?case by (simp add: probes_Suc)
qed

lemma wait_loop_ready_late:
  assumes "\<forall>j < k. \<not> fst (pingAnvil env (probes env j s))"
  shows "wait_loop env False (int k + 1) s
           = (Inl (Error ''Could not connect to Anvil''), probes env (Suc k) s)"
  using assms
proof (induction k arbitrary: s)
  case 0
  then show ?case
    by (simp add: probes_0 probes_Suc wait_loop_last_probe)
next
  case (Suc k)
  from Suc.prems have first: "\<not> fst (pingAnvil env s)"
    by (metis probes_0 zero_less_Suc)
  from Suc.prems have rest: "\<forall>j < k. \<not> fst (pingAnvil env (probes env j (snd (pingAnvil env s))))"
    by (metis probes_Suc Suc_less_eq)
  have "wait_loop env False (int (Suc k) + 1) s
          = wait_loop env False (int (Suc k) + 1 - 1) (snd (pingAnvil env s))"
    using first by (intro wait_loop_failed_probe) simp_all
  also have "\<dots> = (Inl (Error ''Could not connect to Anvil''), probes env (Suc k) (snd (pingAnvil env s)))"
    using Suc.IH [OF rest] by (simp add: add.commute)
  finally show ?case by (simp add: probes_Suc)
qed

lemma main_ready_on_last_probe:
  assumes "\<forall>j < 4. \<not> fst (pingAnvil env (probes env j s))"
  shows "main env s = (Inl (Error ''Could not connect to Anvil''), probes env 5 s)"
  using wait_loop_ready_late [of 4 env s] assms by (simp add: main_def await_def)

text \<open>On the node that answers after \<open>boot\<close> unanswered requests.\<close>

lemma ping_anvil:
  "pingAnvil anvil s =
     (if boot (world s) = 0 then (True, s)
      else (False, s\<lparr>world := (world s)\<lparr>boot := boot (world s) - 1\<rparr>\<rparr>))"
  by (simp add: pingAnvil_def anvil_def gt_def lt_def parse_defs)

lemma calls_start: "calls (start n a b) = []"
  by (simp add: start_def)

lemma boot_start: "boot (world (start n a b)) = n"
  by (simp add: start_def)

lemma boot_world_start: "(start n a b)\<lparr>world := (world (start n a b))\<lparr>boot := m\<rparr>\<rparr> = start m a b"
  by (simp add: start_def)

lemma wait_start_4:
  "wait_loop anvil False 5 (start 4 a b) = (Inl (Error ''Could not connect to Anvil''), start 0 a b)"
  by (simp add: wait_loop_probe wait_loop_ready ping_anvil boot_start boot_world_start)

lemma wait_start_3:
  "wait_loop anvil False 5 (start 3 a b) = (Inr (), start 0 a b)"
  by (simp add: wait_loop_probe wait_loop_ready ping_anvil boot_start boot_world_start)

lemma probes_start_4: "probes anvil 4 (start 4 a b) = start 0 a b"
  by (simp add: probes_def eval_nat_numeral ping_anvil boot_start boot_world_start)

text \<open>
  C8 (readiness), evaluated where it fails. The node leaves four liveness requests
  unanswered and answers the fifth, which is within the budget of five: the fifth
  \<^verbatim>\<open>pingAnvil\<close> returns \<^verbatim>\<open>true\<close>, and \<^verbatim>\<open>main\<close> still throws
  \<^verbatim>\<open>Could not connect to Anvil\<close>, runs no command and exits with status 1.
\<close>

theorem ready_on_last_probe:
  "fst (pingAnvil anvil (probes anvil 4 (start 4 0 0))) = True
   \<and> main anvil (start 4 0 0) = (Inl (Error ''Could not connect to Anvil''), start 0 0 0)
   \<and> calls (start 0 0 0) = []
   \<and> exit_code (fst (main anvil (start 4 0 0))) = 1"
  by (simp add: probes_start_4 ping_anvil boot_start main_def await_def wait_start_4
      calls_start exit_code_def)

subsection \<open>The loop over the steps\<close>

lemma run_steps_first_throws:
  "fn s = (Inl e, s') \<Longrightarrow> run_steps (fn # fns) isMoving s = (Inl e, s')"
  by (simp add: await_def)

lemma run_steps_first_done:
  "fn s = (Inr True, s') \<Longrightarrow> run_steps (fn # fns) isMoving s = run_steps fns isMoving s'"
  by (simp add: await_def)

lemma run_steps_retry_throws:
  "fn s = (Inr False, s1) \<Longrightarrow> retry fn 5 s1 = (Inl e, s2) \<Longrightarrow>
   run_steps (fn # fns) isMoving s = (Inl e, s2)"
  by (simp add: await_def)

lemma run_steps_retry_done:
  "fn s = (Inr False, s1) \<Longrightarrow> retry fn 5 s1 = (Inr True, s2) \<Longrightarrow>
   run_steps (fn # fns) isMoving s = run_steps fns isMoving s2"
  by (simp add: await_def)

lemma run_steps_append:
  "run_steps pre isMoving s = (Inr m, s1) \<Longrightarrow>
   run_steps (pre @ rest) isMoving s = run_steps rest m s1"
proof (induction pre arbitrary: s)
  case Nil
  then show ?case by (simp add: returns_def)
next
  case (Cons fn pre)
  obtain r t where first: "fn s = (r, t)" by (cases "fn s")
  show ?case
  proof (cases r)
    case (Inl e)
    with first Cons.prems show ?thesis by (simp add: run_steps_first_throws del: run_steps.simps)
  next
    case (Inr ok)
    show ?thesis
    proof (cases ok)
      case True
      with first Inr have f: "fn s = (Inr True, t)" by simp
      with Cons.prems have "run_steps pre isMoving t = (Inr m, s1)"
        by (simp add: run_steps_first_done del: run_steps.simps)
      then have "run_steps (pre @ rest) isMoving t = run_steps rest m s1"
        by (rule Cons.IH)
      with f show ?thesis by (simp add: run_steps_first_done del: run_steps.simps)
    next
      case False
      with first Inr have f: "fn s = (Inr False, t)" by simp
      obtain r2 t2 where again: "retry fn 5 t = (r2, t2)" by (cases "retry fn 5 t")
      from retry_result [OF again] show ?thesis
      proof
        assume "r2 = Inr True"
        with again have a: "retry fn 5 t = (Inr True, t2)" by simp
        with f Cons.prems have "run_steps pre isMoving t2 = (Inr m, s1)"
          by (simp add: run_steps_retry_done del: run_steps.simps)
        then have "run_steps (pre @ rest) isMoving t2 = run_steps rest m s1"
          by (rule Cons.IH)
        with f a show ?thesis by (simp add: run_steps_retry_done del: run_steps.simps)
      next
        assume "r2 = Inl (Error ''Failed to execute function'')"
        with again f Cons.prems show ?thesis by (simp add: run_steps_retry_throws del: run_steps.simps)
      qed
    qed
  qed
qed

lemma exec_returns:
  "spawnSync env p (world s) = (r, w') \<Longrightarrow> error r = None \<Longrightarrow>
   exec env p s = (Inr r, s\<lparr>world := w', calls := calls s @ [p]\<rparr>)"
  by (simp add: exec_def)

lemma exec_throws:
  "spawnSync env p (world s) = (r, w') \<Longrightarrow> error r = Some e \<Longrightarrow>
   exec env p s = (Inl (SpawnError e), s\<lparr>world := w', calls := calls s @ [p]\<rparr>)"
  by (simp add: exec_def)

text \<open>The node whose \<^verbatim>\<open>approve\<close> reverts: the first step passes, the second never does.\<close>

lemma reverts_impersonate:
  "spawnSync approve_reverts (impersonate_cmd funder (whale funder)) w = (exited 0 [], w)"
  by (simp add: approve_reverts_def anvil_def impersonate_cmd_def cast_def funder_def)

lemma reverts_approve:
  "spawnSync approve_reverts (approve_cmd this owner) w = (exited 1 [], w)"
  by (simp add: approve_reverts_def approve_cmd_def)

lemma impersonate_reverts:
  "impersonateAccount approve_reverts funder (whale funder) s
     = (Inr True, s\<lparr>calls := calls s @ [impersonate_cmd funder (whale funder)]\<rparr>)"
  by (simp add: impersonateAccount_def await_def returns_def
      exec_returns [OF reverts_impersonate] exited_def)

lemma approve_reverts_fails:
  "approvePayload approve_reverts this owner s
     = (Inr False, s\<lparr>calls := calls s @ [approve_cmd this owner]\<rparr>)"
  by (simp add: approvePayload_def await_def returns_def
      exec_returns [OF reverts_approve] exited_def)

lemma attempts_approve_reverts:
  "attempts (approvePayload approve_reverts this owner) k s
     = s\<lparr>calls := calls s @ replicate k (approve_cmd this owner)\<rparr>"
  by (induction k arbitrary: s)
     (simp_all add: attempts_0 attempts_Suc approve_reverts_fails replicate_app_Cons_same)

lemma fetch_approve_reverts: "fetch approve_reverts = fetch anvil"
  by (simp add: approve_reverts_def)

lemma ping_reverts_started:
  "boot (world s) = 0 \<Longrightarrow> pingAnvil approve_reverts s = (True, s)"
  by (simp add: pingAnvil_def fetch_approve_reverts anvil_def gt_def lt_def parse_defs)

text \<open>
  C5 (fail fast). Let the steps of \<^verbatim>\<open>execute\<close> be \<open>pre\<close>, then \<open>fn\<close>, then \<open>post\<close>.
  When the steps \<open>pre\<close> have passed, \<open>fn\<close> has returned \<^verbatim>\<open>false\<close> and its
  \<open>retry\<close> has thrown, \<^verbatim>\<open>execute\<close> throws that error, which is the error of the
  exhausted budget, in the very state in which \<open>retry\<close> threw: no step of \<open>post\<close>
  has run, validation has not run, and nothing has started again from the first step.
  The same holds whatever steps stand after \<open>fn\<close>. For the funder of \<^verbatim>\<open>main\<close>, once
  the node is ready, \<^verbatim>\<open>main\<close> ends with the same error and the process exits with
  status 1.
\<close>

theorem fail_fast:
  assumes "steps env this = pre @ fn # post"
    and "run_steps pre True s = (Inr isMoving, s1)"
    and "fn s1 = (Inr False, s2)"
    and "retry fn 5 s2 = (Inl e, s3)"
  shows "execute env this s = (Inl e, s3)
         \<and> e = Error ''Failed to execute function''
         \<and> (\<forall>others. run_steps (pre @ fn # others) True s = (Inl e, s3))
         \<and> (this = funder \<and> wait_loop env False 5 s0 = (Inr (), s)
              \<longrightarrow> main env s0 = (Inl e, s3) \<and> exit_code (fst (main env s0)) = 1)"
proof -
  have stop: "run_steps (pre @ fn # others) True s = (Inl e, s3)" for others
    using run_steps_append [OF assms(2), of "fn # others"]
      run_steps_retry_throws [OF assms(3) assms(4), of others isMoving]
    by (simp del: run_steps.simps)
  from stop [of post] assms(1) have run: "execute env this s = (Inl e, s3)"
    by (simp add: execute_def await_def)
  then have "main env s0 = (Inl e, s3) \<and> exit_code (fst (main env s0)) = 1"
    if "this = funder" and "wait_loop env False 5 s0 = (Inr (), s)"
    using that by (simp add: main_def await_def exit_code_def)
  moreover from retry_result [OF assms(4)] have "e = Error ''Failed to execute function''"
    by simp
  ultimately show ?thesis using stop run by blast
qed

text \<open>
  C5, at an input: on the node whose \<^verbatim>\<open>approve\<close> reverts the run is one
  \<^verbatim>\<open>anvil_impersonateAccount\<close> and six \<^verbatim>\<open>approve\<close> commands (one direct attempt and
  five retries); no balance is read and no transfer is sent.
\<close>

theorem fail_fast_witness:
  "main approve_reverts (start 0 0 0)
     = (Inl (Error ''Failed to execute function''),
        (start 0 0 0)\<lparr>calls := impersonate_cmd funder (whale funder)
                                # replicate 6 (approve_cmd funder (fundingWallet funder))\<rparr>)
   \<and> execute approve_reverts funder (start 0 0 0) = main approve_reverts (start 0 0 0)
   \<and> exit_code (fst (main approve_reverts (start 0 0 0))) = 1"
proof -
  let ?imp = "impersonateAccount approve_reverts funder (whale funder)"
  let ?app = "approvePayload approve_reverts funder (fundingWallet funder)"
  let ?tr = "transferPayload approve_reverts funder"
  let ?s1 = "(start 0 0 0)\<lparr>calls := [impersonate_cmd funder (whale funder)]\<rparr>"
  let ?s2 = "?s1\<lparr>calls := calls ?s1 @ [approve_cmd funder (fundingWallet funder)]\<rparr>"
  let ?s3 = "attempts ?app 5 ?s2"
  have a: "steps approve_reverts funder = [?imp] @ ?app # [?tr]"
    by (simp add: steps_def)
  have b: "run_steps [?imp] True (start 0 0 0) = (Inr True, ?s1)"
    by (simp add: await_def returns_def impersonate_reverts calls_start)
  have c: "?app ?s1 = (Inr False, ?s2)"
    by (rule approve_reverts_fails)
  have "\<forall>j < 5. fst (?app (attempts ?app j ?s2)) \<noteq> Inr True"
    by (simp add: approve_reverts_fails)
  then have d: "retry ?app 5 ?s2 = (Inl (Error ''Failed to execute function''), ?s3)"
    by (rule retry_exhausted)
  have w: "wait_loop approve_reverts False 5 (start 0 0 0) = (Inr (), start 0 0 0)"
    by (simp add: wait_loop_probe wait_loop_ready ping_reverts_started start_def)
  have last: "?s3 = (start 0 0 0)\<lparr>calls := impersonate_cmd funder (whale funder)
                                # replicate 6 (approve_cmd funder (fundingWallet funder))\<rparr>"
    by (simp add: attempts_approve_reverts eval_nat_numeral)
  from fail_fast [OF a b c d, of "start 0 0 0"] w
  have "execute approve_reverts funder (start 0 0 0) = (Inl (Error ''Failed to execute function''), ?s3)"
    and "main approve_reverts (start 0 0 0) = (Inl (Error ''Failed to execute function''), ?s3)"
    and "exit_code (fst (main approve_reverts (start 0 0 0))) = 1"
    by blast+
  with last show ?thesis by (simp only:)
qed

lemma no_cast_spawn:
  "spawnSync no_cast p w = (\<lparr>error = Some ''ENOENT'', status = None, stdout = []\<rparr>, w)"
  by (simp add: no_cast_def)

lemma no_cast_impersonate:
  "impersonateAccount no_cast this a s
     = (Inl (SpawnError ''ENOENT''), s\<lparr>calls := calls s @ [impersonate_cmd this a]\<rparr>)"
  by (simp add: impersonateAccount_def await_def exec_throws [OF no_cast_spawn])

lemma attempts_no_cast:
  "attempts (impersonateAccount no_cast this a) k s
     = s\<lparr>calls := calls s @ replicate k (impersonate_cmd this a)\<rparr>"
  by (induction k arbitrary: s)
     (simp_all add: attempts_0 attempts_Suc no_cast_impersonate replicate_app_Cons_same)

lemma retry_no_cast:
  "retry (impersonateAccount no_cast this a) 5 s
     = (Inl (Error ''Failed to execute function''),
        s\<lparr>calls := calls s @ replicate 5 (impersonate_cmd this a)\<rparr>)"
proof -
  have "\<forall>j < 5. fst (impersonateAccount no_cast this a
                        (attempts (impersonateAccount no_cast this a) j s)) \<noteq> Inr True"
    by (simp add: no_cast_impersonate)
  from retry_exhausted [OF this] show ?thesis
    by (simp add: attempts_no_cast)
qed

text \<open>
  Exceptions in the loop over the steps. \<^verbatim>\<open>execute\<close> invokes a step once directly
  and hands it to \<open>retry\<close> only when that invocation has returned \<^verbatim>\<open>false\<close>. An
  exception of the direct invocation leaves the loop at once, with no retry. In the
  invocations that \<open>retry\<close> makes, an attempt that throws counts like one that returns
  \<^verbatim>\<open>false\<close>: when all five fail or throw, the error that leaves the loop is the one
  of \<open>retry\<close>, and when one succeeds the loop goes on with the next step.
\<close>

lemma exception_boundary:
  "(run_steps pre True s0 = (Inr m, s) \<and> fn s = (Inl e, s')
      \<longrightarrow> run_steps (pre @ fn # post) True s0 = (Inl e, s'))
   \<and> (run_steps pre True s0 = (Inr m, s) \<and> fn s = (Inr False, s1)
        \<and> (\<forall>j < 5. fst (fn (attempts fn j s1)) \<noteq> Inr True)
      \<longrightarrow> run_steps (pre @ fn # post) True s0
            = (Inl (Error ''Failed to execute function''), attempts fn 5 s1))
   \<and> (run_steps pre True s0 = (Inr m, s) \<and> fn s = (Inr False, s1) \<and> k < 5
        \<and> (\<forall>j < k. fst (fn (attempts fn j s1)) \<noteq> Inr True)
        \<and> fst (fn (attempts fn k s1)) = Inr True
      \<longrightarrow> run_steps (pre @ fn # post) True s0 = run_steps post m (attempts fn (Suc k) s1))"
proof (intro conjI impI)
  assume a: "run_steps pre True s0 = (Inr m, s) \<and> fn s = (Inl e, s')"
  then have "run_steps (pre @ fn # post) True s0 = run_steps (fn # post) m s"
    by (simp add: run_steps_append del: run_steps.simps)
  with a show "run_steps (pre @ fn # post) True s0 = (Inl e, s')"
    by (simp add: run_steps_first_throws del: run_steps.simps)
next
  assume a: "run_steps pre True s0 = (Inr m, s) \<and> fn s = (Inr False, s1)
        \<and> (\<forall>j < 5. fst (fn (attempts fn j s1)) \<noteq> Inr True)"
  then have "retry fn 5 s1 = (Inl (Error ''Failed to execute function''), attempts fn 5 s1)"
    by (intro retry_exhausted) simp
  moreover from a have "run_steps (pre @ fn # post) True s0 = run_steps (fn # post) m s"
    by (simp add: run_steps_append del: run_steps.simps)
  ultimately show "run_steps (pre @ fn # post) True s0
            = (Inl (Error ''Failed to execute function''), attempts fn 5 s1)"
    using a by (simp add: run_steps_retry_throws del: run_steps.simps)
next
  assume a: "run_steps pre True s0 = (Inr m, s) \<and> fn s = (Inr False, s1) \<and> k < 5
        \<and> (\<forall>j < k. fst (fn (attempts fn j s1)) \<noteq> Inr True)
        \<and> fst (fn (attempts fn k s1)) = Inr True"
  then have "retry fn 5 s1 = (Inr True, attempts fn (Suc k) s1)"
    by (intro retry_first_success) simp_all
  moreover from a have "run_steps (pre @ fn # post) True s0 = run_steps (fn # post) m s"
    by (simp add: run_steps_append del: run_steps.simps)
  ultimately show "run_steps (pre @ fn # post) True s0 = run_steps post m (attempts fn (Suc k) s1)"
    using a by (simp add: run_steps_retry_done del: run_steps.simps)
qed

text \<open>
  With the countdown step: started at 2 its direct invocation throws and the exception
  leaves the loop; started at 9 it returns \<^verbatim>\<open>false\<close> and then throws or fails five
  times under \<open>retry\<close>, and the error of \<open>retry\<close> leaves the loop; started at 3 it
  returns \<^verbatim>\<open>false\<close>, throws once and fails once under \<open>retry\<close>, succeeds, and the
  next step runs.
\<close>

lemma exception_boundary_flaky:
  "run_steps [flaky, flaky] True 2 = (Inl (SpawnError ''EAGAIN''), 1)
   \<and> run_steps [flaky, flaky] True 9 = (Inl (Error ''Failed to execute function''), 3)
   \<and> run_steps [flaky, flaky] True 3 = (Inr True, 0)"
proof (intro conjI)
  have nil: "run_steps [] True s = (Inr True, s)" for s :: nat
    by (simp add: returns_def)
  have "flaky 2 = (Inl (SpawnError ''EAGAIN''), 1)"
    by (simp add: flaky_def)
  with exception_boundary [of "[]" 2 True 2 flaky "SpawnError ''EAGAIN''" 1 "[flaky]"] nil
  show "run_steps [flaky, flaky] True 2 = (Inl (SpawnError ''EAGAIN''), 1)"
    by (simp del: run_steps.simps)
next
  have nil: "run_steps [] True s = (Inr True, s)" for s :: nat
    by (simp add: returns_def)
  have first: "flaky 9 = (Inr False, 8)"
    by (simp add: flaky_def)
  have "\<forall>j < 5. fst (flaky (attempts flaky j 8)) \<noteq> Inr True"
    by (simp add: attempts_flaky flaky_def)
  with exception_boundary [of "[]" 9 True 9 flaky _ _ "[flaky]" 8] nil first
  show "run_steps [flaky, flaky] True 9 = (Inl (Error ''Failed to execute function''), 3)"
    by (simp add: attempts_flaky del: run_steps.simps)
next
  have nil: "run_steps [] True s = (Inr True, s)" for s :: nat
    by (simp add: returns_def)
  have first: "flaky 3 = (Inr False, 2)"
    by (simp add: flaky_def)
  have fails: "\<forall>j < 2. fst (flaky (attempts flaky j 2)) \<noteq> Inr True"
    and throws: "fst (flaky (attempts flaky 0 2)) = Inl (SpawnError ''EAGAIN'')"
    and hit: "fst (flaky (attempts flaky 2 2)) = Inr True"
    by (simp_all add: attempts_flaky flaky_def)
  have last: "run_steps [flaky] True 0 = (Inr True, 0)"
    by (simp add: await_def returns_def flaky_def)
  from exception_boundary [of "[]" 3 True 3 flaky _ _ "[flaky]" 2 2] nil first fails hit
  have "run_steps [flaky, flaky] True 3 = run_steps [flaky] True (attempts flaky 3 2)"
    by (simp add: eval_nat_numeral del: run_steps.simps)
  with last show "run_steps [flaky, flaky] True 3 = (Inr True, 0)"
    by (simp add: attempts_flaky del: run_steps.simps)
qed

text \<open>
  C9 (exception boundary), evaluated where it fails. The first invocation of a step is
  \<^verbatim>\<open>await fn()\<close> in \<^verbatim>\<open>execute\<close> itself, outside \<^verbatim>\<open>retry\<close>. Where \<^verbatim>\<open>cast\<close>
  cannot be launched, \<^verbatim>\<open>_exec\<close> throws in that first invocation of the first step and
  \<^verbatim>\<open>execute\<close> ends with this exception after a single command: nothing was caught,
  counted or retried. The same step under \<^verbatim>\<open>retry\<close> is attempted five times, each
  exception caught, before \<^verbatim>\<open>retry\<close> throws its own error.
\<close>

theorem first_attempt_unguarded:
  "execute no_cast funder (start 0 0 0)
     = (Inl (SpawnError ''ENOENT''),
        (start 0 0 0)\<lparr>calls := [impersonate_cmd funder (whale funder)]\<rparr>)
   \<and> retry (impersonateAccount no_cast funder (whale funder)) 5 (start 0 0 0)
     = (Inl (Error ''Failed to execute function''),
        (start 0 0 0)\<lparr>calls := replicate 5 (impersonate_cmd funder (whale funder))\<rparr>)"
  by (simp add: execute_def steps_def await_def no_cast_impersonate retry_no_cast calls_start)

subsection \<open>The transfer step\<close>

text \<open>The transfer step on any node: what it sends does not depend on the balance read.\<close>

lemma transferPayload_not_above:
  assumes "fundingBalanceCheck env this s = (Inr out, s1)"
    and "\<not> strictEq (parseInt out) (parseInt (expected_balance this))"
    and "\<not> gt (parseInt out) (parseInt (expected_balance this))"
  shows "transferPayload env this s =
     await (exec env (transfer_cmd this (whale this) (fundingWallet this) (expected_balance this)))
       (\<lambda>transfer. returns (status transfer = Some 0)) s1"
  using assms by (simp add: transferPayload_def await_def returns_def)

lemma transferPayload_after_clawback:
  assumes "fundingBalanceCheck env this s = (Inr out, s1)"
    and "gt (parseInt out) (parseInt (expected_balance this))"
    and "retry (clearBalance env this) 5 s1 = (Inr True, s2)"
  shows "transferPayload env this s =
     await (exec env (transfer_cmd this (whale this) (fundingWallet this) (expected_balance this)))
       (\<lambda>transfer. returns (status transfer = Some 0)) s2"
proof -
  from assms(2) have "\<not> strictEq (parseInt out) (parseInt (expected_balance this))"
    by (rule gt_not_strictEq)
  with assms show ?thesis
    by (simp add: transferPayload_def await_def returns_def)
qed

lemma anvil_balanceOf:
  "spawnSync anvil (balance_cmd this) w =
     (exited 0 (toString (int (balances w (fundingWallet this))) @ [CHR 0x0A]), w)"
  by (simp add: anvil_def balance_cmd_def cast_def)


lemma anvil_transfer:
  "exactInt amount = Some a \<Longrightarrow> 0 \<le> a \<Longrightarrow> nat a \<le> balances w sender \<Longrightarrow>
   spawnSync anvil (transfer_cmd this sender x amount) w = (exited 0 [], move sender x (nat a) w)"
  by (simp add: anvil_def transfer_cmd_def cast_def)

lemma balance_read_anvil:
  "fundingBalanceCheck anvil this s =
     (Inr (toString (int (balances (world s) (fundingWallet this))) @ [CHR 0x0A]),
      s\<lparr>calls := calls s @ [balance_cmd this]\<rparr>)"
  by (simp add: fundingBalanceCheck_def await_def returns_def
      exec_returns [OF anvil_balanceOf] exited_def)


lemma transfer_anvil:
  "exactInt amount = Some a \<Longrightarrow> 0 \<le> a \<Longrightarrow> nat a \<le> balances (world s) sender \<Longrightarrow>
   exec anvil (transfer_cmd this sender x amount) s =
     (Inr (exited 0 []),
      s\<lparr>world := move sender x (nat a) (world s),
        calls := calls s @ [transfer_cmd this sender x amount]\<rparr>)"
  by (simp add: exec_returns [OF anvil_transfer] exited_def)

lemma wallet_neq_whale: "fundingWallet funder \<noteq> whale funder"
  by (simp add: funder_def)

lemma balances_move:
  "sender \<noteq> x \<Longrightarrow> balances (move sender x a w) sender = balances w sender - a"
  "sender \<noteq> x \<Longrightarrow> balances (move sender x a w) x = balances w x + a"
  by (simp_all add: move_def Let_def)

lemma exact_target: "exactInt (expected_balance funder) = Some 10000000000000000000000"
  by (simp add: funder_def exact_defs)

lemma parse_target: "parseInt (expected_balance funder) = Num 10000000000000000000000"
  by (simp add: funder_def parse_defs)


lemma transferPayload_equal:
  assumes "parseInt (toString (int (balances (world s) (fundingWallet funder))) @ [CHR 0x0A])
             = Num 10000000000000000000000"
  shows "transferPayload anvil funder s = (Inr True, s\<lparr>calls := calls s @ [balance_cmd funder]\<rparr>)"
  using assms
  by (simp add: transferPayload_def await_def returns_def balance_read_anvil parse_target
      strictEq_def)

lemma transferPayload_below:
  assumes "parseInt (toString (int (balances (world s) (fundingWallet funder))) @ [CHR 0x0A]) = Num b"
    and "b < 10000000000000000000000"
    and "10000000000000000000000 \<le> balances (world s) (whale funder)"
  shows "transferPayload anvil funder s =
     (Inr True,
      s\<lparr>world := move (whale funder) (fundingWallet funder) 10000000000000000000000 (world s),
        calls := calls s @ [balance_cmd funder,
          transfer_cmd funder (whale funder) (fundingWallet funder) (expected_balance funder)]\<rparr>)"
proof -
  let ?s1 = "s\<lparr>calls := calls s @ [balance_cmd funder]\<rparr>"
  have "exec anvil (transfer_cmd funder (whale funder) (fundingWallet funder)
          (expected_balance funder)) ?s1 =
     (Inr (exited 0 []),
      ?s1\<lparr>world := move (whale funder) (fundingWallet funder) (nat 10000000000000000000000) (world ?s1),
        calls := calls ?s1 @ [transfer_cmd funder (whale funder) (fundingWallet funder)
                                 (expected_balance funder)]\<rparr>)"
    using assms(3) by (intro transfer_anvil [OF exact_target]) simp_all
  with assms(1,2) show ?thesis
    by (simp add: transferPayload_def await_def returns_def balance_read_anvil parse_target
        strictEq_def gt_def lt_def exited_def)
qed

lemma clearBalance_anvil:
  assumes "parseInt (toString (int (balances (world s) (fundingWallet funder))) @ [CHR 0x0A]) = Num b"
    and "toNumber (b - 10000000000000000000000) = Num d"
    and "exactInt (toString d) = Some d"
    and "0 \<le> d" and "nat d \<le> balances (world s) (fundingWallet funder)"
  shows "clearBalance anvil funder s =
     (Inr True,
      s\<lparr>world := move (fundingWallet funder) (whale funder) (nat d) (world s),
        calls := calls s @ [balance_cmd funder,
          transfer_cmd funder (fundingWallet funder) (whale funder)
            (toString d)]\<rparr>)"
proof -
  let ?s1 = "s\<lparr>calls := calls s @ [balance_cmd funder]\<rparr>"
  let ?cmd = "transfer_cmd funder (fundingWallet funder) (whale funder)
                (toString d)"
  have "exec anvil ?cmd ?s1 =
     (Inr (exited 0 []),
      ?s1\<lparr>world := move (fundingWallet funder) (whale funder) (nat d) (world ?s1),
        calls := calls ?s1 @ [?cmd]\<rparr>)"
    using assms(4,5) by (intro transfer_anvil [OF assms(3)]) simp_all
  with assms(1,2) show ?thesis
    by (simp add: clearBalance_def await_def returns_def balance_read_anvil parse_target
        sub_def BigInt_def exited_def)
qed

lemma retry_at_once: "fn s = (Inr True, s') \<Longrightarrow> 0 < n \<Longrightarrow> retry fn n s = (Inr True, s')"
  using retry_loop_success_step [of 0 n fn s] by (simp add: retry_def)

lemma transferPayload_above:
  assumes "parseInt (toString (int (balances (world s) (fundingWallet funder))) @ [CHR 0x0A]) = Num b"
    and "10000000000000000000000 < b"
    and "toNumber (b - 10000000000000000000000) = Num d"
    and "exactInt (toString d) = Some d"
    and "0 \<le> d" and "nat d \<le> balances (world s) (fundingWallet funder)"
    and "10000000000000000000000 \<le> balances (world s) (whale funder) + nat d"
  shows "transferPayload anvil funder s =
     (Inr True,
      s\<lparr>world := move (whale funder) (fundingWallet funder) 10000000000000000000000
                  (move (fundingWallet funder) (whale funder) (nat d) (world s)),
        calls := calls s @ [balance_cmd funder, balance_cmd funder,
          transfer_cmd funder (fundingWallet funder) (whale funder)
            (toString d),
          transfer_cmd funder (whale funder) (fundingWallet funder) (expected_balance funder)]\<rparr>)"
proof -
  let ?s1 = "s\<lparr>calls := calls s @ [balance_cmd funder]\<rparr>"
  let ?s2 = "?s1\<lparr>world := move (fundingWallet funder) (whale funder) (nat d) (world ?s1),
        calls := calls ?s1 @ [balance_cmd funder,
          transfer_cmd funder (fundingWallet funder) (whale funder)
            (toString d)]\<rparr>"
  have "clearBalance anvil funder ?s1 = (Inr True, ?s2)"
    using assms(1,3,4,5,6) by (intro clearBalance_anvil) simp_all
  then have clear: "retry (clearBalance anvil funder) 5 ?s1 = (Inr True, ?s2)"
    by (rule retry_at_once) simp
  have "10000000000000000000000 \<le> balances (world ?s2) (whale funder)"
    using assms(7) wallet_neq_whale by (simp add: balances_move)
  then have "exec anvil (transfer_cmd funder (whale funder) (fundingWallet funder)
          (expected_balance funder)) ?s2 =
     (Inr (exited 0 []),
      ?s2\<lparr>world := move (whale funder) (fundingWallet funder) (nat 10000000000000000000000) (world ?s2),
        calls := calls ?s2 @ [transfer_cmd funder (whale funder) (fundingWallet funder)
                                 (expected_balance funder)]\<rparr>)"
    by (intro transfer_anvil [OF exact_target]) simp_all
  with assms(1,2) clear show ?thesis
    by (simp add: transferPayload_def await_def returns_def balance_read_anvil parse_target
        strictEq_def gt_def lt_def exited_def)
qed

lemma wallet_start: "balances (world (start n a b)) (fundingWallet funder) = b"
  by (simp add: start_def)

lemma whale_start: "balances (world (start n a b)) (whale funder) = 1000000000000000000000000"
  by (simp add: start_def funder_def)

lemma target_funder: "expected_balance funder = ''10000000000000000000000''"
  by (simp add: funder_def)

lemma reconcile_below:
  assumes "parseInt (toString (int (balances (world s) (fundingWallet funder))) @ [CHR 0x0A])
             = Num (int (balances (world s) (fundingWallet funder)))"
    and "balances (world s) (fundingWallet funder) < 10000000000000000000000"
    and "10000000000000000000000 \<le> balances (world s) (whale funder)"
  shows "fst (transferPayload anvil funder s) = Inr True"
    and "balances (world (snd (transferPayload anvil funder s))) (fundingWallet funder)
           = balances (world s) (fundingWallet funder) + 10000000000000000000000"
    and "balances (world (snd (transferPayload anvil funder s))) (whale funder)
           = balances (world s) (whale funder) - 10000000000000000000000"
    and "sends (snd (transferPayload anvil funder s))
           = sends s @ [transfer_cmd funder (whale funder) (fundingWallet funder)
                          ''10000000000000000000000'']"
proof -
  have "transferPayload anvil funder s =
     (Inr True,
      s\<lparr>world := move (whale funder) (fundingWallet funder) 10000000000000000000000 (world s),
        calls := calls s @ [balance_cmd funder,
          transfer_cmd funder (whale funder) (fundingWallet funder) (expected_balance funder)]\<rparr>)"
    using assms by (intro transferPayload_below) (assumption | linarith)+
  then show "fst (transferPayload anvil funder s) = Inr True"
    and "balances (world (snd (transferPayload anvil funder s))) (fundingWallet funder)
           = balances (world s) (fundingWallet funder) + 10000000000000000000000"
    and "balances (world (snd (transferPayload anvil funder s))) (whale funder)
           = balances (world s) (whale funder) - 10000000000000000000000"
    and "sends (snd (transferPayload anvil funder s))
           = sends s @ [transfer_cmd funder (whale funder) (fundingWallet funder)
                          ''10000000000000000000000'']"
    using wallet_neq_whale
    by (simp_all add: balances_move sends_def balance_cmd_def transfer_cmd_def target_funder)
qed

lemma reconcile_above:
  assumes "parseInt (toString (int (balances (world s) (fundingWallet funder))) @ [CHR 0x0A])
             = Num (int (balances (world s) (fundingWallet funder)))"
    and "10000000000000000000000 < balances (world s) (fundingWallet funder)"
    and "toNumber (int (balances (world s) (fundingWallet funder)) - 10000000000000000000000)
             = Num (int (balances (world s) (fundingWallet funder)) - 10000000000000000000000)"
    and "exactInt (toString (int (balances (world s) (fundingWallet funder)) - 10000000000000000000000))
             = Some (int (balances (world s) (fundingWallet funder)) - 10000000000000000000000)"
    and "10000000000000000000000 \<le> balances (world s) (whale funder)"
  shows "fst (transferPayload anvil funder s) = Inr True"
    and "balances (world (snd (transferPayload anvil funder s))) (fundingWallet funder)
           = 20000000000000000000000"
    and "balances (world (snd (transferPayload anvil funder s))) (whale funder)
           = balances (world s) (whale funder)
             + (balances (world s) (fundingWallet funder) - 10000000000000000000000)
             - 10000000000000000000000"
    and "sends (snd (transferPayload anvil funder s))
           = sends s @ [transfer_cmd funder (fundingWallet funder) (whale funder)
                          (toString (int (balances (world s) (fundingWallet funder))
                                     - 10000000000000000000000)),
                        transfer_cmd funder (whale funder) (fundingWallet funder)
                          ''10000000000000000000000'']"
proof -
  let ?b = "int (balances (world s) (fundingWallet funder))"
  let ?d = "?b - 10000000000000000000000"
  have "transferPayload anvil funder s =
     (Inr True,
      s\<lparr>world := move (whale funder) (fundingWallet funder) 10000000000000000000000
                  (move (fundingWallet funder) (whale funder) (nat ?d) (world s)),
        calls := calls s @ [balance_cmd funder, balance_cmd funder,
          transfer_cmd funder (fundingWallet funder) (whale funder) (toString ?d),
          transfer_cmd funder (whale funder) (fundingWallet funder) (expected_balance funder)]\<rparr>)"
    using assms by (intro transferPayload_above) (assumption | linarith)+
  then show "fst (transferPayload anvil funder s) = Inr True"
    and "balances (world (snd (transferPayload anvil funder s))) (fundingWallet funder)
           = 20000000000000000000000"
    and "balances (world (snd (transferPayload anvil funder s))) (whale funder)
           = balances (world s) (whale funder)
             + (balances (world s) (fundingWallet funder) - 10000000000000000000000)
             - 10000000000000000000000"
    and "sends (snd (transferPayload anvil funder s))
           = sends s @ [transfer_cmd funder (fundingWallet funder) (whale funder)
                          (toString (int (balances (world s) (fundingWallet funder))
                                     - 10000000000000000000000)),
                        transfer_cmd funder (whale funder) (fundingWallet funder)
                          ''10000000000000000000000'']"
    using wallet_neq_whale wallet_neq_whale [symmetric] assms(2)
    by (simp_all add: balances_move sends_def balance_cmd_def transfer_cmd_def target_funder nat_diff_distrib)
qed

lemma sends_start: "sends (start n a b) = []"
  by (simp add: sends_def calls_start)

lemma transferPayload_fixed_point:
  assumes "fundingBalanceCheck env this s = (Inr out, s1)"
    and "strictEq (parseInt out) (parseInt (expected_balance this))"
  shows "transferPayload env this s = (Inr True, s1)"
  using assms by (simp add: transferPayload_def await_def returns_def)

lemma reconcile_at_target:
  "transferPayload anvil funder (start n a 10000000000000000000000)
     = (Inr True, (start n a 10000000000000000000000)\<lparr>calls := [balance_cmd funder]\<rparr>)"
proof -
  have "parseInt (toString (int (balances (world (start n a 10000000000000000000000))
                                   (fundingWallet funder))) @ [CHR 0x0A])
          = Num 10000000000000000000000"
    by (simp add: wallet_start print_defs parse_defs)
  from transferPayload_equal [OF this] show ?thesis
    by (simp add: calls_start)
qed

text \<open>
  C1 (claw-back), evaluated where it fails. The funding wallet holds twice the target.
  \<^verbatim>\<open>_transferPayload\<close> sends the surplus \<open>10^22\<close> back to the whale and then, falling
  through to the transfer that follows the branch, sends the whole target from the
  whale to the funding wallet again: two transfers, and the wallet ends with
  \<open>2 * 10^22\<close>, not with the target.
\<close>

theorem clawback_then_full_transfer:
  "fst (transferPayload anvil funder (start 0 0 20000000000000000000000)) = Inr True
   \<and> sends (snd (transferPayload anvil funder (start 0 0 20000000000000000000000)))
       = [transfer_cmd funder (fundingWallet funder) (whale funder) ''10000000000000000000000'',
          transfer_cmd funder (whale funder) (fundingWallet funder) ''10000000000000000000000'']
   \<and> wallet_balance (snd (transferPayload anvil funder (start 0 0 20000000000000000000000)))
       = 20000000000000000000000"
proof -
  let ?s = "start 0 0 20000000000000000000000"
  have a: "parseInt (toString (int (balances (world ?s) (fundingWallet funder))) @ [CHR 0x0A])
             = Num (int (balances (world ?s) (fundingWallet funder)))"
    by (simp add: wallet_start print_defs parse_defs)
  have b: "10000000000000000000000 < balances (world ?s) (fundingWallet funder)"
    by (simp add: wallet_start)
  have c: "toNumber (int (balances (world ?s) (fundingWallet funder)) - 10000000000000000000000)
             = Num (int (balances (world ?s) (fundingWallet funder)) - 10000000000000000000000)"
    by (simp add: wallet_start parse_defs)
  have c': "exactInt (toString (int (balances (world ?s) (fundingWallet funder)) - 10000000000000000000000))
             = Some (int (balances (world ?s) (fundingWallet funder)) - 10000000000000000000000)"
    by (simp add: wallet_start print_defs exact_defs)
  have d: "10000000000000000000000 \<le> balances (world ?s) (whale funder)"
    by (simp add: whale_start)
  have e: "toString (int (balances (world ?s) (fundingWallet funder)) - 10000000000000000000000)
             = ''10000000000000000000000''"
    by (simp add: wallet_start print_defs)
  from reconcile_above [OF a b c c' d] e show ?thesis
    by (simp add: wallet_balance_def sends_start)
qed

text \<open>
  C2 (top-up), evaluated where it fails. The funding wallet holds half the target.
  \<^verbatim>\<open>_transferPayload\<close> sends \<^verbatim>\<open>expected.balance\<close>, the whole target \<open>10^22\<close>, not
  the missing \<open>5 * 10^21\<close>, and the wallet ends with \<open>15 * 10^21\<close>.
\<close>

theorem topup_sends_whole_target:
  "fst (transferPayload anvil funder (start 0 0 5000000000000000000000)) = Inr True
   \<and> sends (snd (transferPayload anvil funder (start 0 0 5000000000000000000000)))
       = [transfer_cmd funder (whale funder) (fundingWallet funder) ''10000000000000000000000'']
   \<and> wallet_balance (snd (transferPayload anvil funder (start 0 0 5000000000000000000000)))
       = 15000000000000000000000"
proof -
  let ?s = "start 0 0 5000000000000000000000"
  have "parseInt (toString (int (balances (world ?s) (fundingWallet funder))) @ [CHR 0x0A])
          = Num 5000000000000000000000"
    by (simp add: wallet_start print_defs parse_defs)
  then have "transferPayload anvil funder ?s =
     (Inr True,
      ?s\<lparr>world := move (whale funder) (fundingWallet funder) 10000000000000000000000 (world ?s),
        calls := calls ?s @ [balance_cmd funder,
          transfer_cmd funder (whale funder) (fundingWallet funder) (expected_balance funder)]\<rparr>)"
    by (rule transferPayload_below) (simp_all add: whale_start)
  then show ?thesis
    using wallet_neq_whale
    by (simp add: wallet_balance_def balances_move wallet_start calls_start sends_def
        balance_cmd_def transfer_cmd_def target_funder)
qed

text \<open>
  C3 (idempotent reconciliation), evaluated where it fails. From half the target,
  three invocations of \<^verbatim>\<open>_transferPayload\<close> in a row leave the wallet at
  \<open>15 * 10^21\<close>, \<open>2 * 10^22\<close> and \<open>2 * 10^22\<close>, and send one, two and two transfers: the
  balance never equals the target and every invocation transfers again. (When the
  balance read equals the target the step sends nothing and returns \<^verbatim>\<open>true\<close>:
  \<open>transferPayload_fixed_point\<close>, \<open>reconcile_at_target\<close>.)
\<close>

theorem reconcile_keeps_transferring:
  "(let s1 = snd (transferPayload anvil funder (start 0 0 5000000000000000000000));
        s2 = snd (transferPayload anvil funder s1);
        s3 = snd (transferPayload anvil funder s2)
    in wallet_balance s1 = 15000000000000000000000 \<and> length (sends s1) = 1
       \<and> wallet_balance s2 = 20000000000000000000000 \<and> length (sends s2) = 3
       \<and> wallet_balance s3 = 20000000000000000000000 \<and> length (sends s3) = 5)"
proof -
  define s0 where "s0 = start 0 0 5000000000000000000000"
  define s1 where "s1 = snd (transferPayload anvil funder s0)"
  define s2 where "s2 = snd (transferPayload anvil funder s1)"
  define s3 where "s3 = snd (transferPayload anvil funder s2)"
  have w0: "balances (world s0) (fundingWallet funder) = 5000000000000000000000"
    and h0: "balances (world s0) (whale funder) = 1000000000000000000000000"
    and c0: "sends s0 = []"
    by (simp_all add: s0_def wallet_start whale_start sends_start)
  have "parseInt (toString (int (balances (world s0) (fundingWallet funder))) @ [CHR 0x0A])
          = Num (int (balances (world s0) (fundingWallet funder)))"
    by (simp add: w0 print_defs parse_defs)
  from reconcile_below(2-4) [OF this]
  have w1: "balances (world s1) (fundingWallet funder) = 15000000000000000000000"
    and h1: "balances (world s1) (whale funder) = 990000000000000000000000"
    and c1: "length (sends s1) = 1"
    by (simp_all add: s1_def w0 h0 c0)
  have "parseInt (toString (int (balances (world s1) (fundingWallet funder))) @ [CHR 0x0A])
          = Num (int (balances (world s1) (fundingWallet funder)))"
    and "toNumber (int (balances (world s1) (fundingWallet funder)) - 10000000000000000000000)
          = Num (int (balances (world s1) (fundingWallet funder)) - 10000000000000000000000)"
    and "exactInt (toString (int (balances (world s1) (fundingWallet funder)) - 10000000000000000000000))
          = Some (int (balances (world s1) (fundingWallet funder)) - 10000000000000000000000)"
    by (simp_all add: w1 print_defs parse_defs)
  from reconcile_above(2-4) [OF this(1) _ this(2) this(3)]
  have w2: "balances (world s2) (fundingWallet funder) = 20000000000000000000000"
    and h2: "balances (world s2) (whale funder) = 985000000000000000000000"
    and c2: "length (sends s2) = 3"
    by (simp_all add: s2_def w1 h1 c1)
  have "parseInt (toString (int (balances (world s2) (fundingWallet funder))) @ [CHR 0x0A])
          = Num (int (balances (world s2) (fundingWallet funder)))"
    and "toNumber (int (balances (world s2) (fundingWallet funder)) - 10000000000000000000000)
          = Num (int (balances (world s2) (fundingWallet funder)) - 10000000000000000000000)"
    and "exactInt (toString (int (balances (world s2) (fundingWallet funder)) - 10000000000000000000000))
          = Some (int (balances (world s2) (fundingWallet funder)) - 10000000000000000000000)"
    by (simp_all add: w2 print_defs parse_defs)
  from reconcile_above(2-4) [OF this(1) _ this(2) this(3)]
  have w3: "balances (world s3) (fundingWallet funder) = 20000000000000000000000"
    and c3: "length (sends s3) = 5"
    by (simp_all add: s3_def w2 h2 c2)
  from w1 c1 w2 c2 w3 c3 show ?thesis
    by (simp add: Let_def wallet_balance_def s0_def s1_def s2_def s3_def)
qed

subsection \<open>Validation\<close>














end
